theory Spec2Isabelle
  imports Main
begin

section \<open>Data model of \<open>src/app/page.tsx\<close>\<close>

text \<open>
  The page keeps four pieces of React state and renders a list of Pokemon records that
  it receives from the remote API. A JavaScript string is modelled as a \<open>string\<close>
  whose characters are the code units U+0000 to U+00FF. This range is closed under every
  string operation of the page, and \<open>trim\<close> and \<open>toLowerCase\<close> below are the
  JavaScript functions on it.

  The nested JSON objects \<open>{type: {name}}\<close> and \<open>{ability: {name}}\<close> carry one string
  each, so \<open>types\<close> and \<open>abilities\<close> hold that string directly, in source order.
\<close>

record Pokemon =
  pokemon_id :: int
  name :: string
  types :: "string list"
  height :: int
  weight :: int
  abilities :: "string list"
  official_artwork :: string
  front_default :: string

record view_state =
  searchTerm :: string
  pokemonList :: "Pokemon list"
  isLoading :: bool
  error :: "string option"

text \<open>The state the four \<open>useState\<close> calls start from.\<close>

definition initial_state :: view_state where
  "initial_state = \<lparr>searchTerm = [], pokemonList = [], isLoading = False, error = None\<rparr>"

subsection \<open>String primitives of the JavaScript runtime\<close>

text \<open>
  \<open>s.replace(p, r)\<close> with a string pattern replaces the first occurrence only. The page
  calls it with the one-character pattern \<open>'-'\<close> and the replacement \<open>' '\<close>.
\<close>

fun js_replace :: "char \<Rightarrow> char \<Rightarrow> string \<Rightarrow> string" where
  "js_replace p r [] = []"
| "js_replace p r (c # cs) = (if c = p then r # cs else c # js_replace p r cs)"

text \<open>\<open>xs.join(sep)\<close>.\<close>

fun join :: "string \<Rightarrow> string list \<Rightarrow> string" where
  "join sep [] = []"
| "join sep [x] = x"
| "join sep (x # y # ys) = x @ sep @ join sep (y # ys)"

text \<open>
  \<open>s.trim()\<close> strips the white space and line terminator code points from both ends.
  Below U+0100 these are tab, line feed, vertical tab, form feed, carriage return, space
  and the no-break space U+00A0.
\<close>

definition is_whitespace :: "char \<Rightarrow> bool" where
  "is_whitespace c = (of_char c \<in> set [9, 10, 11, 12, 13, 32, 160 :: nat])"

definition trim :: "string \<Rightarrow> string" where
  "trim s = rev (dropWhile is_whitespace (rev (dropWhile is_whitespace s)))"

text \<open>
  \<open>s.toLowerCase()\<close>: below U+0100 the upper-case letters are A to Z, U+00C0 to U+00D6
  and U+00D8 to U+00DE, each 32 below its lower-case letter.
\<close>

definition lower_char :: "char \<Rightarrow> char" where
  "lower_char c =
     (let n = (of_char c :: nat)
      in if (65 \<le> n \<and> n \<le> 90) \<or> (192 \<le> n \<and> n \<le> 214) \<or> (216 \<le> n \<and> n \<le> 222)
         then char_of (n + 32) else c)"

definition toLowerCase :: "string \<Rightarrow> string" where
  "toLowerCase s = map lower_char s"

subsection \<open>Presentation\<close>

text \<open>
  The abilities paragraph of a card:
  \<^verbatim>\<open>pokemon.abilities.map((a) => a.ability.name.replace('-', ' ')).join(', ')\<close>
\<close>

definition abilities_display :: "Pokemon \<Rightarrow> string" where
  "abilities_display pokemon =
     join '', '' (map (js_replace CHR ''-'' CHR '' '') (abilities pokemon))"

text \<open>
  The same paragraph as the specification words it: every hyphen of every ability name
  becomes a space, and the names are joined by a comma and a space.
\<close>

definition hyphens_to_spaces :: "string \<Rightarrow> string" where
  "hyphens_to_spaces s = map (\<lambda>c. if c = CHR ''-'' then CHR '' '' else c) s"

definition abilities_spec :: "Pokemon \<Rightarrow> string" where
  "abilities_spec pokemon = join '', '' (map hyphens_to_spaces (abilities pokemon))"

text \<open>
  The static colour table, in source order (the type buttons are rendered from
  \<open>Object.entries(typeColors)\<close>).
\<close>

definition typeColors :: "(string \<times> string) list" where
  "typeColors =
     [(''fire'', ''bg-[#F08030]''),
      (''water'', ''bg-[#6890F0]''),
      (''grass'', ''bg-[#78C850]''),
      (''electric'', ''bg-[#F8D030]''),
      (''psychic'', ''bg-[#F85888]''),
      (''ice'', ''bg-[#98D8D8]''),
      (''dragon'', ''bg-[#7038F8]''),
      (''dark'', ''bg-[#705848]''),
      (''fairy'', ''bg-[#EE99AC]''),
      (''normal'', ''bg-[#A8A878]''),
      (''fighting'', ''bg-[#C03028]''),
      (''flying'', ''bg-[#A890F0]''),
      (''poison'', ''bg-[#A040A0]''),
      (''ground'', ''bg-[#E0C068]''),
      (''rock'', ''bg-[#B8A038]''),
      (''bug'', ''bg-[#A8B820]''),
      (''ghost'', ''bg-[#705898]''),
      (''steel'', ''bg-[#B8B8D0]'')]"

text \<open>
  \<open>typeColors\<close> is an object literal, so \<open>typeColors[key]\<close> is a property read: an own
  property gives its string, a name that the object inherits from \<open>Object.prototype\<close>
  gives that inherited member (a function or an object), any other name gives
  \<open>undefined\<close>.
\<close>

datatype js_value = Undefined | JsString string | Inherited string

definition object_prototype_keys :: "string list" where
  "object_prototype_keys =
     [''constructor'', ''hasOwnProperty'', ''isPrototypeOf'', ''propertyIsEnumerable'',
      ''toLocaleString'', ''toString'', ''valueOf'', ''__proto__'',
      ''__defineGetter__'', ''__defineSetter__'', ''__lookupGetter__'', ''__lookupSetter__'']"

definition typeColors_get :: "string \<Rightarrow> js_value" where
  "typeColors_get key =
     (case map_of typeColors key of
        Some color \<Rightarrow> JsString color
      | None \<Rightarrow> if key \<in> set object_prototype_keys then Inherited key else Undefined)"

fun truthy :: "js_value \<Rightarrow> bool" where
  "truthy Undefined = False"
| "truthy (JsString s) = (s \<noteq> [])"
| "truthy (Inherited k) = True"

text \<open>\<open>a || b\<close>.\<close>

definition js_or :: "js_value \<Rightarrow> js_value \<Rightarrow> js_value" where
  "js_or a b = (if truthy a then a else b)"

datatype failure = NetworkError | HttpError nat | SyntaxError | TypeError

text \<open>
  The header colour of a card:
  \<^verbatim>\<open>const primaryType = pokemon.types[0].type.name;
  const typeColor = typeColors[primaryType] || 'bg-gray-500';\<close>
  Reading \<open>.type\<close> of \<open>types[0]\<close> throws a TypeError when \<open>types\<close> is empty.
\<close>

definition typeColor :: "Pokemon \<Rightarrow> failure + js_value" where
  "typeColor pokemon =
     (case types pokemon of
        [] \<Rightarrow> Inl TypeError
      | primaryType # _ \<Rightarrow> Inr (js_or (typeColors_get primaryType) (JsString ''bg-gray-500'')))"

section \<open>The remote API\<close>

text \<open>
  \<open>fetch(url)\<close> either rejects (no response at all) or resolves to a response with a
  status code and a body; \<open>response.json()\<close> rejects when the body is not JSON, which is
  the body \<open>None\<close>. \<open>response.ok\<close> holds for the status codes 200 to 299.
\<close>

datatype 'a fetch_result = Rejected | Response nat "'a option"

definition ok :: "nat \<Rightarrow> bool" where
  "ok status = (200 \<le> status \<and> status \<le> 299)"

text \<open>
  The remote source, as the page sees it: what a GET of a creature URL answers, and
  what a GET of a type URL answers. The body of a type answer is its \<open>pokemon\<close> array,
  each entry reduced to the \<open>pokemon.url\<close> string it carries.
\<close>

record api =
  pokemon_at :: "string \<Rightarrow> Pokemon fetch_result"
  type_at :: "string \<Rightarrow> string list fetch_result"

section \<open>Events of the page\<close>

text \<open>
  What a handler or a fetch routine does, in program order: a call of one of the four
  state setters, a call of \<open>fetch\<close>, or \<open>e.preventDefault()\<close>.
\<close>

datatype event =
    SetSearchTerm string
  | SetPokemonList "Pokemon list"
  | SetIsLoading bool
  | SetError "string option"
  | Fetch string
  | PreventDefault

fun apply_event :: "view_state \<Rightarrow> event \<Rightarrow> view_state" where
  "apply_event s (SetSearchTerm v) = s\<lparr>searchTerm := v\<rparr>"
| "apply_event s (SetPokemonList v) = s\<lparr>pokemonList := v\<rparr>"
| "apply_event s (SetIsLoading v) = s\<lparr>isLoading := v\<rparr>"
| "apply_event s (SetError v) = s\<lparr>error := v\<rparr>"
| "apply_event s (Fetch url) = s"
| "apply_event s PreventDefault = s"

definition run :: "event list \<Rightarrow> view_state \<Rightarrow> view_state" where
  "run events s = foldl apply_event s events"

section \<open>Fetch layer\<close>

subsection \<open>\<open>fetchPokemonByName\<close>\<close>

definition pokemon_url :: "string \<Rightarrow> string" where
  "pokemon_url name' = ''https://pokeapi.co/api/v2/pokemon/'' @ toLowerCase name'"

text \<open>The synchronous start of the routine, up to the first \<open>await\<close>.\<close>

definition fetchPokemonByName_begin :: "string \<Rightarrow> event list" where
  "fetchPokemonByName_begin name' =
     [SetIsLoading True, SetError None, Fetch (pokemon_url name')]"

text \<open>The \<open>try\<close> block after the request was issued: the parsed body, or the throw.\<close>

definition fetchPokemonByName_try :: "api \<Rightarrow> string \<Rightarrow> failure + Pokemon" where
  "fetchPokemonByName_try remote name' =
     (case pokemon_at remote (pokemon_url name') of
        Rejected \<Rightarrow> Inl NetworkError
      | Response status body \<Rightarrow>
          if \<not> ok status then Inl (HttpError status)
          else (case body of None \<Rightarrow> Inl SyntaxError | Some data \<Rightarrow> Inr data))"

text \<open>What the routine does once the request has settled: success or \<open>catch\<close>, then \<open>finally\<close>.\<close>

definition fetchPokemonByName_settle :: "api \<Rightarrow> string \<Rightarrow> event list" where
  "fetchPokemonByName_settle remote name' =
     (case fetchPokemonByName_try remote name' of
        Inr data \<Rightarrow> [SetPokemonList [data]]
      | Inl e \<Rightarrow> [SetError (Some ''Pokemon not found. Please try another name.''),
                  SetPokemonList []])
     @ [SetIsLoading False]"

definition fetchPokemonByName :: "api \<Rightarrow> string \<Rightarrow> event list" where
  "fetchPokemonByName remote name' =
     fetchPokemonByName_begin name' @ fetchPokemonByName_settle remote name'"

subsection \<open>\<open>fetchPokemonByType\<close>\<close>

definition type_url :: "string \<Rightarrow> string" where
  "type_url type' = ''https://pokeapi.co/api/v2/type/'' @ toLowerCase type'"

definition fetchPokemonByType_begin :: "string \<Rightarrow> event list" where
  "fetchPokemonByType_begin type' =
     [SetIsLoading True, SetError None, Fetch (type_url type')]"

text \<open>
  The membership request and \<open>data.pokemon.slice(0, 20).map(p => p.pokemon.url)\<close>.
\<close>

definition pokemonUrls :: "api \<Rightarrow> string \<Rightarrow> failure + string list" where
  "pokemonUrls remote type' =
     (case type_at remote (type_url type') of
        Rejected \<Rightarrow> Inl NetworkError
      | Response status body \<Rightarrow>
          if \<not> ok status then Inl (HttpError status)
          else (case body of None \<Rightarrow> Inl SyntaxError | Some members \<Rightarrow> Inr (take 20 members)))"

text \<open>
  One member request, \<^verbatim>\<open>async (url) => { const res = await fetch(url); return res.json(); }\<close>:
  the status of the response is not looked at.
\<close>

definition member_request :: "api \<Rightarrow> string \<Rightarrow> failure + Pokemon" where
  "member_request remote url =
     (case pokemon_at remote url of
        Rejected \<Rightarrow> Inl NetworkError
      | Response status body \<Rightarrow>
          (case body of None \<Rightarrow> Inl SyntaxError | Some data \<Rightarrow> Inr data))"

text \<open>
  \<open>Promise.all\<close>: the values in the order of the promises when all of them resolve, a
  rejection as soon as one rejects. The \<open>catch\<close> of the page ignores the reason, so the
  reason kept here is that of the first rejected promise of the list.
\<close>

fun promise_all :: "(failure + 'a) list \<Rightarrow> failure + 'a list" where
  "promise_all [] = Inr []"
| "promise_all (Inl e # rs) = Inl e"
| "promise_all (Inr v # rs) =
     (case promise_all rs of Inl e \<Rightarrow> Inl e | Inr vs \<Rightarrow> Inr (v # vs))"

text \<open>
  After the membership request has settled: a throw goes to \<open>catch\<close>; otherwise every
  member request is issued at once and their results are awaited together.
\<close>

definition fetchPokemonByType_settle :: "api \<Rightarrow> string \<Rightarrow> event list" where
  "fetchPokemonByType_settle remote type' =
     (case pokemonUrls remote type' of
        Inl e \<Rightarrow> [SetError (Some ''Failed to load Pokemon by type. Please try again.''),
                  SetPokemonList []]
      | Inr urls \<Rightarrow>
          map Fetch urls @
          (case promise_all (map (member_request remote) urls) of
             Inr pokemonData \<Rightarrow> [SetPokemonList pokemonData]
           | Inl e \<Rightarrow> [SetError (Some ''Failed to load Pokemon by type. Please try again.''),
                       SetPokemonList []]))
     @ [SetIsLoading False]"

definition fetchPokemonByType :: "api \<Rightarrow> string \<Rightarrow> event list" where
  "fetchPokemonByType remote type' =
     fetchPokemonByType_begin type' @ fetchPokemonByType_settle remote type'"

section \<open>Controller\<close>

text \<open>
  \<^verbatim>\<open>e.preventDefault(); if (searchTerm.trim()) { fetchPokemonByName(searchTerm); }\<close>
  A string is truthy when it is not empty.
\<close>

definition handleSearch :: "api \<Rightarrow> view_state \<Rightarrow> event list" where
  "handleSearch remote s =
     PreventDefault #
     (if trim (searchTerm s) \<noteq> [] then fetchPokemonByName remote (searchTerm s) else [])"

text \<open>The effect on mount.\<close>

definition on_mount :: "api \<Rightarrow> event list" where
  "on_mount remote = fetchPokemonByType remote ''fire''"

section \<open>Concrete inputs\<close>

text \<open>Three records as the remote source serves them, and one with an unusual type name.\<close>

definition pikachu :: Pokemon where
  "pikachu =
     \<lparr>pokemon_id = 25, name = ''pikachu'', types = [''electric''], height = 4, weight = 60,
      abilities = [''static'', ''lightning-rod''],
      official_artwork = ''official-artwork/25.png'', front_default = ''25.png''\<rparr>"

definition charizard :: Pokemon where
  "charizard =
     \<lparr>pokemon_id = 6, name = ''charizard'', types = [''fire'', ''flying''], height = 17,
      weight = 905, abilities = [''blaze'', ''solar-power''],
      official_artwork = ''official-artwork/6.png'', front_default = ''6.png''\<rparr>"

definition muk_alola :: Pokemon where
  "muk_alola =
     \<lparr>pokemon_id = 10113, name = ''muk-alola'', types = [''poison'', ''dark''], height = 10,
      weight = 520, abilities = [''poison-touch'', ''gluttony'', ''power-of-alchemy''],
      official_artwork = ''official-artwork/10113.png'', front_default = ''10113.png''\<rparr>"

definition constructor_typed :: Pokemon where
  "constructor_typed =
     \<lparr>pokemon_id = 1, name = ''sample'', types = [''constructor''], height = 1, weight = 1,
      abilities = [], official_artwork = ''official-artwork/1.png'', front_default = ''1.png''\<rparr>"

definition shadow_typed :: Pokemon where
  "shadow_typed =
     \<lparr>pokemon_id = 2, name = ''sample'', types = [''shadow''], height = 1, weight = 1,
      abilities = [], official_artwork = ''official-artwork/2.png'', front_default = ''2.png''\<rparr>"

text \<open>
  A remote source with two creatures, each served under its name and under its number,
  and four types: \<open>fire\<close> with one member, \<open>electric\<close> with twenty-two member
  references, \<open>shadow\<close> with none, and \<open>flying\<close> with a member reference that
  answers 404 with a body that is not JSON. Everything else answers 404.
\<close>

definition sample_pokemon_at :: "string \<Rightarrow> Pokemon fetch_result" where
  "sample_pokemon_at url =
     (if url = ''https://pokeapi.co/api/v2/pokemon/pikachu'' then Response 200 (Some pikachu)
      else if url = ''https://pokeapi.co/api/v2/pokemon/25'' then Response 200 (Some pikachu)
      else if url = ''https://pokeapi.co/api/v2/pokemon/25/'' then Response 200 (Some pikachu)
      else if url = ''https://pokeapi.co/api/v2/pokemon/charizard'' then Response 200 (Some charizard)
      else if url = ''https://pokeapi.co/api/v2/pokemon/6/'' then Response 200 (Some charizard)
      else Response 404 None)"

definition sample_type_at :: "string \<Rightarrow> string list fetch_result" where
  "sample_type_at url =
     (if url = ''https://pokeapi.co/api/v2/type/fire''
        then Response 200 (Some [''https://pokeapi.co/api/v2/pokemon/6/''])
      else if url = ''https://pokeapi.co/api/v2/type/electric''
        then Response 200 (Some (''https://pokeapi.co/api/v2/pokemon/6/''
               # replicate 21 ''https://pokeapi.co/api/v2/pokemon/25/''))
      else if url = ''https://pokeapi.co/api/v2/type/shadow'' then Response 200 (Some [])
      else if url = ''https://pokeapi.co/api/v2/type/flying''
        then Response 200 (Some [''https://pokeapi.co/api/v2/pokemon/6/'',
                                 ''https://pokeapi.co/api/v2/pokemon/0/''])
      else Response 404 None)"

definition sample_api :: api where
  "sample_api = \<lparr>pokemon_at = sample_pokemon_at, type_at = sample_type_at\<rparr>"

text \<open>A remote source that cannot be reached: every request rejects.\<close>

definition offline_api :: api where
  "offline_api = \<lparr>pokemon_at = (\<lambda>url. Rejected), type_at = (\<lambda>url. Rejected)\<rparr>"

text \<open>
  View states: a previous result on display, with three different search inputs. The
  blank input is a space, a no-break space and a tab.
\<close>

definition showing_charizard :: view_state where
  "showing_charizard =
     \<lparr>searchTerm = ''charizard'', pokemonList = [charizard], isLoading = False, error = None\<rparr>"

definition padded_search :: view_state where
  "padded_search =
     \<lparr>searchTerm = '' pikachu '', pokemonList = [charizard], isLoading = False, error = None\<rparr>"

definition blank_search :: view_state where
  "blank_search =
     \<lparr>searchTerm = [CHR '' '', CHR 0xA0, CHR 0x09], pokemonList = [charizard],
      isLoading = False, error = None\<rparr>"

section \<open>Auxiliary facts\<close>

lemma run_Nil: "run [] s = s"
  by (simp add: run_def)

lemma run_Cons: "run (e # es) s = run es (apply_event s e)"
  by (simp add: run_def)

lemma run_append: "run (xs @ ys) s = run ys (run xs s)"
  by (simp add: run_def)

lemma run_map_Fetch: "run (map Fetch urls) s = s"
  by (induction urls) (simp_all add: run_Nil run_Cons)

text \<open>\<open>Promise.all\<close> resolves exactly when every promise of the list resolved.\<close>

lemma promise_all_Inr_iff: "promise_all rs = Inr vs \<longleftrightarrow> rs = map Inr vs"
proof (induction rs arbitrary: vs)
  case Nil
  then show ?case by auto
next
  case (Cons r rs)
  show ?case
  proof (cases r)
    case (Inl e)
    then show ?thesis by auto
  next
    case (Inr v)
    show ?thesis
    proof (cases "promise_all rs")
      case (Inl e)
      with Cons[of "tl vs"] Inr show ?thesis by (cases vs) auto
    next
      case inr: (Inr ws)
      with Cons[of ws] Inr show ?thesis by (cases vs) auto
    qed
  qed
qed

lemma map_eq_map_Inr:
  assumes eq: "map f xs = map Inr vs"
  shows "length vs = length xs" and "\<And>i. i < length xs \<Longrightarrow> f (xs ! i) = Inr (vs ! i)"
proof -
  from eq have "length (map f xs) = length (map Inr vs)" by simp
  then show len: "length vs = length xs" by simp
  fix i assume i: "i < length xs"
  from eq have "map f xs ! i = map Inr vs ! i" by simp
  with i len show "f (xs ! i) = Inr (vs ! i)" by simp
qed

lemma promise_all_rejects:
  assumes "Inl e \<in> set rs"
  shows "\<exists>e'. promise_all rs = Inl e'"
proof (cases "promise_all rs")
  case (Inl a)
  then show ?thesis by simp
next
  case (Inr vs)
  then have "rs = map Inr vs" by (simp add: promise_all_Inr_iff)
  with assms show ?thesis by auto
qed

lemma promise_all_replicate: "promise_all (replicate k (Inr v)) = Inr (replicate k v)"
  by (induction k) simp_all

lemma lower_char_idem: "lower_char (lower_char c) = lower_char c"
  by (simp add: lower_char_def Let_def)

lemma toLowerCase_idem: "toLowerCase (toLowerCase s) = toLowerCase s"
  by (simp add: toLowerCase_def lower_char_idem)

lemma trim_blank:
  assumes "\<forall>c \<in> set s. is_whitespace c"
  shows "trim s = []"
  using assms by (auto simp: trim_def dest: set_dropWhileD)

text \<open>The colour table has 18 distinct keys, and every colour is a non-empty string.\<close>

lemma typeColors_keys: "length typeColors = 18 \<and> distinct (map fst typeColors)"
  by (simp add: typeColors_def)

lemma typeColors_truthy: "map_of typeColors t = Some c \<Longrightarrow> c \<noteq> []"
  by (auto simp: typeColors_def split: if_splits)

text \<open>The final state of a whole run of each routine, started in state \<open>s\<close>.\<close>

lemma run_fetchPokemonByName:
  "run (fetchPokemonByName remote n) s =
     (case fetchPokemonByName_try remote n of
        Inr data \<Rightarrow>
          \<lparr>searchTerm = searchTerm s, pokemonList = [data], isLoading = False, error = None\<rparr>
      | Inl e \<Rightarrow>
          \<lparr>searchTerm = searchTerm s, pokemonList = [], isLoading = False,
           error = Some ''Pokemon not found. Please try another name.''\<rparr>)"
  by (cases s)
    (simp add: fetchPokemonByName_def fetchPokemonByName_begin_def
      fetchPokemonByName_settle_def run_def split: sum.splits)

lemma run_fetchPokemonByType:
  "run (fetchPokemonByType remote t) s =
     (case pokemonUrls remote t of
        Inl e \<Rightarrow>
          \<lparr>searchTerm = searchTerm s, pokemonList = [], isLoading = False,
           error = Some ''Failed to load Pokemon by type. Please try again.''\<rparr>
      | Inr urls \<Rightarrow>
          (case promise_all (map (member_request remote) urls) of
             Inr pokemonData \<Rightarrow>
               \<lparr>searchTerm = searchTerm s, pokemonList = pokemonData, isLoading = False,
                error = None\<rparr>
           | Inl e \<Rightarrow>
               \<lparr>searchTerm = searchTerm s, pokemonList = [], isLoading = False,
                error = Some ''Failed to load Pokemon by type. Please try again.''\<rparr>))"
  by (cases s)
    (simp add: fetchPokemonByType_def fetchPokemonByType_begin_def
      fetchPokemonByType_settle_def run_append run_map_Fetch run_Cons run_Nil
      split: sum.splits)

text \<open>The state after the settlement of each routine, whatever state it settles in.\<close>

lemma run_fetchPokemonByName_settle:
  "run (fetchPokemonByName_settle remote n) s' =
     (case fetchPokemonByName_try remote n of
        Inr data \<Rightarrow>
          \<lparr>searchTerm = searchTerm s', pokemonList = [data], isLoading = False,
           error = error s'\<rparr>
      | Inl e \<Rightarrow>
          \<lparr>searchTerm = searchTerm s', pokemonList = [], isLoading = False,
           error = Some ''Pokemon not found. Please try another name.''\<rparr>)"
  by (cases s')
    (simp add: fetchPokemonByName_settle_def run_def split: sum.splits)

lemma run_fetchPokemonByType_settle:
  "run (fetchPokemonByType_settle remote t) s' =
     (case pokemonUrls remote t of
        Inl e \<Rightarrow>
          \<lparr>searchTerm = searchTerm s', pokemonList = [], isLoading = False,
           error = Some ''Failed to load Pokemon by type. Please try again.''\<rparr>
      | Inr urls \<Rightarrow>
          (case promise_all (map (member_request remote) urls) of
             Inr pokemonData \<Rightarrow>
               \<lparr>searchTerm = searchTerm s', pokemonList = pokemonData, isLoading = False,
                error = error s'\<rparr>
           | Inl e \<Rightarrow>
               \<lparr>searchTerm = searchTerm s', pokemonList = [], isLoading = False,
                error = Some ''Failed to load Pokemon by type. Please try again.''\<rparr>))"
  by (cases s')
    (simp add: fetchPokemonByType_settle_def run_append run_map_Fetch run_Cons run_Nil
      split: sum.splits)

lemma pokemonUrls_empty:
  assumes "pokemonUrls remote t = Inr []"
  shows "\<exists>status. ok status \<and> type_at remote (type_url t) = Response status (Some [])"
  using assms
  by (auto simp: pokemonUrls_def split: fetch_result.splits option.splits if_splits)

lemma pokemonUrls_empty_membership:
  "type_at remote (type_url t) = Response status (Some []) \<Longrightarrow> ok status \<Longrightarrow>
   pokemonUrls remote t = Inr []"
  by (simp add: pokemonUrls_def)

text \<open>A member request resolves to the body of the response, whatever its status.\<close>

lemma member_request_Inr:
  assumes "member_request remote url = Inr data"
  shows "\<exists>status. pokemon_at remote url = Response status (Some data)"
  using assms
  by (auto simp: member_request_def split: fetch_result.splits option.splits)

lemma pokemonUrls_ok:
  "type_at remote (type_url t) = Response status (Some members) \<Longrightarrow> ok status \<Longrightarrow>
   pokemonUrls remote t = Inr (take 20 members)"
  by (simp add: pokemonUrls_def)

section \<open>Presentation of a card\<close>

text \<open>
  Where every ability name has at most one hyphen, the abilities paragraph is the
  one the specification describes.
\<close>

lemma js_replace_absent: "p \<notin> set s \<Longrightarrow> js_replace p r s = s"
  by (induction s) auto

lemma hyphens_to_spaces_absent: "CHR ''-'' \<notin> set s \<Longrightarrow> hyphens_to_spaces s = s"
  by (induction s) (auto simp: hyphens_to_spaces_def)

lemma js_replace_one_hyphen:
  "count_list s CHR ''-'' \<le> 1 \<Longrightarrow> js_replace CHR ''-'' CHR '' '' s = hyphens_to_spaces s"
proof (induction s)
  case Nil
  then show ?case by (simp add: hyphens_to_spaces_def)
next
  case (Cons c cs)
  show ?case
  proof (cases "c = CHR ''-''")
    case True
    with Cons.prems have "count_list cs CHR ''-'' = 0" by simp
    then have "CHR ''-'' \<notin> set cs" by (simp add: count_list_0_iff)
    then have "hyphens_to_spaces cs = cs" by (rule hyphens_to_spaces_absent)
    with True show ?thesis by (simp add: hyphens_to_spaces_def)
  next
    case False
    with Cons.prems have "count_list cs CHR ''-'' \<le> 1" by simp
    then have "js_replace CHR ''-'' CHR '' '' cs = hyphens_to_spaces cs" by (rule Cons.IH)
    with False show ?thesis by (simp add: hyphens_to_spaces_def)
  qed
qed

lemma abilities_display_one_hyphen:
  assumes "\<forall>a \<in> set (abilities pokemon). count_list a CHR ''-'' \<le> 1"
  shows "abilities_display pokemon = abilities_spec pokemon"
proof -
  from assms have "map (js_replace CHR ''-'' CHR '' '') (abilities pokemon)
      = map hyphens_to_spaces (abilities pokemon)"
    by (intro map_cong refl js_replace_one_hyphen) simp
  then show ?thesis by (simp only: abilities_display_def abilities_spec_def)
qed

text \<open>
  Claim C1. The displayed abilities string is the ability names, each with every hyphen
  replaced by a space, joined by a comma and a space in source order; an ability name
  with two hyphens has both replaced.

  The page calls \<open>replace('-', ' ')\<close>, which replaces the first hyphen only. For Alolan
  Muk, whose third ability is \<open>power-of-alchemy\<close>, the page displays
  \<open>power of-alchemy\<close> where the claim requires \<open>power of alchemy\<close>.
\<close>

theorem abilities_display_first_hyphen_only:
  "abilities_display muk_alola = ''poison touch, gluttony, power of-alchemy'' \<and>
   abilities_spec muk_alola = ''poison touch, gluttony, power of alchemy''"
  by (simp add: abilities_display_def abilities_spec_def hyphens_to_spaces_def muk_alola_def)

text \<open>
  Where the primary type is a key of the table the header colour is the table's entry,
  and where it is neither a key nor a property name that the table object inherits from
  \<open>Object.prototype\<close> the header colour is the fallback \<open>bg-gray-500\<close>.
\<close>

lemma typeColor_table_or_fallback:
  assumes "types pokemon = primaryType # rest"
  shows "(map_of typeColors primaryType = Some color \<longrightarrow>
            typeColor pokemon = Inr (JsString color)) \<and>
         (map_of typeColors primaryType = None \<and>
          primaryType \<notin> set object_prototype_keys \<longrightarrow>
            typeColor pokemon = Inr (JsString ''bg-gray-500''))"
proof (intro conjI impI)
  assume own: "map_of typeColors primaryType = Some color"
  then have "color \<noteq> []" by (rule typeColors_truthy)
  with own assms show "typeColor pokemon = Inr (JsString color)"
    by (simp add: typeColor_def typeColors_get_def js_or_def)
next
  assume "map_of typeColors primaryType = None \<and> primaryType \<notin> set object_prototype_keys"
  with assms show "typeColor pokemon = Inr (JsString ''bg-gray-500'')"
    by (simp add: typeColor_def typeColors_get_def js_or_def)
qed

lemma typeColor_charizard_shadow:
  "typeColor charizard = Inr (JsString ''bg-[#F08030]'') \<and>
   typeColor shadow_typed = Inr (JsString ''bg-gray-500'')"
  by (simp add: charizard_def shadow_typed_def typeColor_def typeColors_get_def typeColors_def
      object_prototype_keys_def js_or_def)

text \<open>
  Claim C9. For a creature with a non-empty types list, the header colour is the table's
  entry for the primary type when that type is one of the 18 keys, and the fallback
  \<open>bg-gray-500\<close> when the primary type is not in the table.

  The page reads \<open>typeColors[primaryType] || 'bg-gray-500'\<close> from a plain object. For the
  primary type \<open>constructor\<close>, which is not in the table, the read gives the
  constructor function that the object inherits; it is truthy, so \<open>||\<close> keeps it and the
  header does not get the fallback colour the claim requires.
\<close>

theorem typeColor_inherited_name:
  "types constructor_typed = [''constructor''] \<and>
   map_of typeColors ''constructor'' = None \<and>
   typeColor constructor_typed = Inr (Inherited ''constructor'') \<and>
   typeColor constructor_typed \<noteq> Inr (JsString ''bg-gray-500'')"
  by (simp add: constructor_typed_def typeColor_def typeColors_get_def typeColors_def
      object_prototype_keys_def js_or_def)

section \<open>Search submission\<close>

text \<open>
  Claim C2. For a search input that trims to a non-empty string, the name passed to
  \<open>fetchPokemonByName\<close> is the trimmed input.

  The handler trims only inside the test: the call receives \<open>searchTerm\<close> as typed.
  With the input \<open>" pikachu "\<close> the request goes to a URL that contains both spaces
  and the lookup fails, while the trimmed name is found.
\<close>

theorem handleSearch_passes_untrimmed_name:
  "trim (searchTerm padded_search) = ''pikachu'' \<and>
   handleSearch sample_api padded_search =
     [PreventDefault, SetIsLoading True, SetError None,
      Fetch ''https://pokeapi.co/api/v2/pokemon/ pikachu '',
      SetError (Some ''Pokemon not found. Please try another name.''), SetPokemonList [],
      SetIsLoading False] \<and>
   fetchPokemonByName sample_api ''pikachu'' =
     [SetIsLoading True, SetError None, Fetch ''https://pokeapi.co/api/v2/pokemon/pikachu'',
      SetPokemonList [pikachu], SetIsLoading False]"
  by (simp add: padded_search_def trim_def is_whitespace_def handleSearch_def
      fetchPokemonByName_def fetchPokemonByName_begin_def fetchPokemonByName_settle_def
      fetchPokemonByName_try_def pokemon_url_def toLowerCase_def lower_char_def
      sample_api_def sample_pokemon_at_def ok_def)

text \<open>
  Claim C8. When the search input is empty or consists only of whitespace, the
  submission issues no fetch and leaves every field of the view state unchanged: the
  handler does nothing but \<open>preventDefault\<close>.
\<close>

theorem handleSearch_blank_input:
  assumes "\<forall>c \<in> set (searchTerm s). is_whitespace c"
  shows "handleSearch remote s = [PreventDefault] \<and> run (handleSearch remote s) s = s"
proof -
  from assms have "trim (searchTerm s) = []" by (rule trim_blank)
  then have "handleSearch remote s = [PreventDefault]" by (simp add: handleSearch_def)
  then show ?thesis by (simp add: run_Cons run_Nil)
qed

theorem handleSearch_blank_input_witness:
  "list_all is_whitespace (searchTerm blank_search) \<and>
   handleSearch sample_api blank_search = [PreventDefault] \<and>
   run (handleSearch sample_api blank_search) blank_search = blank_search"
proof -
  have h: "\<forall>c \<in> set (searchTerm blank_search). is_whitespace c"
    by (simp add: blank_search_def is_whitespace_def)
  from handleSearch_blank_input [OF h, of sample_api] h show ?thesis
    by (simp add: run_Cons run_Nil list_all_iff)
qed

section \<open>Loading flag and frame of a fetch\<close>

text \<open>
  Claim C6. Every invocation of either fetch routine begins by setting \<open>isLoading\<close> to
  true and clearing \<open>error\<close>, ends by setting \<open>isLoading\<close> back to false, and does not
  touch the flag in between; this is so for every answer of the remote source, on the
  success path and on the failure path, and whatever the state \<open>s'\<close> the page is in
  when the requests settle.
\<close>

theorem isLoading_set_at_entry_cleared_at_settlement:
  "(\<exists>middle. fetchPokemonByName remote n =
       SetIsLoading True # SetError None # middle @ [SetIsLoading False] \<and>
       (\<forall>b. SetIsLoading b \<notin> set middle)) \<and>
   (\<exists>middle. fetchPokemonByType remote t =
       SetIsLoading True # SetError None # middle @ [SetIsLoading False] \<and>
       (\<forall>b. SetIsLoading b \<notin> set middle)) \<and>
   isLoading (run (fetchPokemonByName_begin n) s) = True \<and>
   error (run (fetchPokemonByName_begin n) s) = None \<and>
   isLoading (run (fetchPokemonByName_settle remote n) s') = False \<and>
   isLoading (run (fetchPokemonByName remote n) s) = False \<and>
   isLoading (run (fetchPokemonByType_begin t) s) = True \<and>
   error (run (fetchPokemonByType_begin t) s) = None \<and>
   isLoading (run (fetchPokemonByType_settle remote t) s') = False \<and>
   isLoading (run (fetchPokemonByType remote t) s) = False"
proof (intro conjI)
  let ?name_middle = "Fetch (pokemon_url n) # butlast (fetchPokemonByName_settle remote n)"
  have "fetchPokemonByName remote n =
      SetIsLoading True # SetError None # ?name_middle @ [SetIsLoading False]"
    by (simp add: fetchPokemonByName_def fetchPokemonByName_begin_def
        fetchPokemonByName_settle_def butlast_append)
  moreover have "\<forall>b. SetIsLoading b \<notin> set ?name_middle"
    by (simp add: fetchPokemonByName_settle_def butlast_append split: sum.splits)
  ultimately show "\<exists>middle. fetchPokemonByName remote n =
       SetIsLoading True # SetError None # middle @ [SetIsLoading False] \<and>
       (\<forall>b. SetIsLoading b \<notin> set middle)"
    by blast
  let ?type_middle = "Fetch (type_url t) # butlast (fetchPokemonByType_settle remote t)"
  have "fetchPokemonByType remote t =
      SetIsLoading True # SetError None # ?type_middle @ [SetIsLoading False]"
    by (simp add: fetchPokemonByType_def fetchPokemonByType_begin_def
        fetchPokemonByType_settle_def butlast_append)
  moreover have "\<forall>b. SetIsLoading b \<notin> set ?type_middle"
    by (auto simp: fetchPokemonByType_settle_def butlast_append split: sum.splits)
  ultimately show "\<exists>middle. fetchPokemonByType remote t =
       SetIsLoading True # SetError None # middle @ [SetIsLoading False] \<and>
       (\<forall>b. SetIsLoading b \<notin> set middle)"
    by blast
  show "isLoading (run (fetchPokemonByName_begin n) s) = True"
    by (simp add: fetchPokemonByName_begin_def run_def)
  show "error (run (fetchPokemonByName_begin n) s) = None"
    by (simp add: fetchPokemonByName_begin_def run_def)
  show "isLoading (run (fetchPokemonByName_settle remote n) s') = False"
    by (simp add: fetchPokemonByName_settle_def run_append run_Cons run_Nil)
  show "isLoading (run (fetchPokemonByName remote n) s) = False"
    by (simp add: fetchPokemonByName_def fetchPokemonByName_settle_def run_append run_Cons run_Nil)
  show "isLoading (run (fetchPokemonByType_begin t) s) = True"
    by (simp add: fetchPokemonByType_begin_def run_def)
  show "error (run (fetchPokemonByType_begin t) s) = None"
    by (simp add: fetchPokemonByType_begin_def run_def)
  show "isLoading (run (fetchPokemonByType_settle remote t) s') = False"
    by (simp add: fetchPokemonByType_settle_def run_append run_Cons run_Nil)
  show "isLoading (run (fetchPokemonByType remote t) s) = False"
    by (simp add: fetchPokemonByType_def fetchPokemonByType_settle_def run_append run_Cons run_Nil)
qed

text \<open>
  Claim C10. The start of either fetch routine changes only \<open>isLoading\<close> and
  \<open>error\<close>: the result list and the search term stay as they were, also while the
  member requests of a type lookup are being issued.
\<close>

theorem fetch_start_keeps_results:
  "pokemonList (run (fetchPokemonByName_begin n) s) = pokemonList s \<and>
   searchTerm (run (fetchPokemonByName_begin n) s) = searchTerm s \<and>
   pokemonList (run (fetchPokemonByType_begin t) s) = pokemonList s \<and>
   searchTerm (run (fetchPokemonByType_begin t) s) = searchTerm s \<and>
   pokemonList (run (fetchPokemonByType_begin t @ map Fetch urls) s) = pokemonList s \<and>
   searchTerm (run (fetchPokemonByType_begin t @ map Fetch urls) s) = searchTerm s"
  by (simp add: fetchPokemonByName_begin_def fetchPokemonByType_begin_def run_append
      run_map_Fetch run_Cons run_Nil)

section \<open>Outcome of a name lookup\<close>

text \<open>
  Claim C7, as the code has it. A name lookup whose request is rejected, whose response
  has a status outside 200 to 299, or whose body is not JSON ends with the error
  \<open>Pokemon not found. Please try another name.\<close> and an empty result set. A lookup
  that succeeds replaces the result set by exactly one creature: the record the remote
  source served for the lower-cased name. Its name equals the requested name up to case
  when the remote source serves the record of that name.
\<close>

theorem fetchPokemonByName_outcome:
  "(pokemon_at remote (pokemon_url n) = Rejected \<longrightarrow>
      error (run (fetchPokemonByName remote n) s) =
        Some ''Pokemon not found. Please try another name.'' \<and>
      pokemonList (run (fetchPokemonByName remote n) s) = []) \<and>
   (pokemon_at remote (pokemon_url n) = Response status body \<and>
    (\<not> ok status \<or> body = None) \<longrightarrow>
      error (run (fetchPokemonByName remote n) s) =
        Some ''Pokemon not found. Please try another name.'' \<and>
      pokemonList (run (fetchPokemonByName remote n) s) = []) \<and>
   (pokemon_at remote (pokemon_url n) = Response status (Some data) \<and> ok status \<longrightarrow>
      pokemonList (run (fetchPokemonByName remote n) s) = [data] \<and>
      error (run (fetchPokemonByName remote n) s) = None \<and>
      (name data = toLowerCase n \<longrightarrow> toLowerCase (name data) = toLowerCase n))"
proof (intro conjI impI)
  assume "pokemon_at remote (pokemon_url n) = Rejected"
  then have "fetchPokemonByName_try remote n = Inl NetworkError"
    by (simp add: fetchPokemonByName_try_def)
  then show "error (run (fetchPokemonByName remote n) s) =
        Some ''Pokemon not found. Please try another name.''"
    and "pokemonList (run (fetchPokemonByName remote n) s) = []"
    by (simp_all add: run_fetchPokemonByName)
next
  assume "pokemon_at remote (pokemon_url n) = Response status body \<and>
    (\<not> ok status \<or> body = None)"
  then have "\<exists>e. fetchPokemonByName_try remote n = Inl e"
    by (cases "ok status") (auto simp: fetchPokemonByName_try_def)
  then obtain e where "fetchPokemonByName_try remote n = Inl e" ..
  then show "error (run (fetchPokemonByName remote n) s) =
        Some ''Pokemon not found. Please try another name.''"
    and "pokemonList (run (fetchPokemonByName remote n) s) = []"
    by (simp_all add: run_fetchPokemonByName)
next
  assume "pokemon_at remote (pokemon_url n) = Response status (Some data) \<and> ok status"
  then have "fetchPokemonByName_try remote n = Inr data"
    by (simp add: fetchPokemonByName_try_def)
  then show "pokemonList (run (fetchPokemonByName remote n) s) = [data]"
    and "error (run (fetchPokemonByName remote n) s) = None"
    by (simp_all add: run_fetchPokemonByName)
next
  assume "name data = toLowerCase n"
  then show "toLowerCase (name data) = toLowerCase n"
    by (simp add: toLowerCase_idem)
qed

theorem fetchPokemonByName_outcome_witness:
  "pokemon_at offline_api (pokemon_url ''pikachu'') = Rejected \<and>
   error (run (fetchPokemonByName offline_api ''pikachu'') showing_charizard) =
     Some ''Pokemon not found. Please try another name.'' \<and>
   pokemonList (run (fetchPokemonByName offline_api ''pikachu'') showing_charizard) = [] \<and>
   pokemon_at sample_api (pokemon_url ''nosuchname'') = Response 404 None \<and> \<not> ok 404 \<and>
   error (run (fetchPokemonByName sample_api ''nosuchname'') showing_charizard) =
     Some ''Pokemon not found. Please try another name.'' \<and>
   pokemonList (run (fetchPokemonByName sample_api ''nosuchname'') showing_charizard) = [] \<and>
   pokemon_at sample_api (pokemon_url ''Pikachu'') = Response 200 (Some pikachu) \<and> ok 200 \<and>
   name pikachu = toLowerCase ''Pikachu'' \<and>
   pokemonList (run (fetchPokemonByName sample_api ''Pikachu'') showing_charizard) = [pikachu] \<and>
   error (run (fetchPokemonByName sample_api ''Pikachu'') showing_charizard) = None"
proof -
  have a: "pokemon_at offline_api (pokemon_url ''pikachu'') = Rejected"
    by (simp add: offline_api_def)
  have b: "pokemon_at sample_api (pokemon_url ''nosuchname'') = Response 404 None"
    by (simp add: pokemon_url_def toLowerCase_def lower_char_def sample_api_def
        sample_pokemon_at_def)
  have l: "toLowerCase ''Pikachu'' = ''pikachu''"
    by (simp add: toLowerCase_def lower_char_def char_of_def bit_Suc_0_iff)
  have c: "pokemon_at sample_api (pokemon_url ''Pikachu'') = Response 200 (Some pikachu)"
    by (simp add: pokemon_url_def l sample_api_def sample_pokemon_at_def)
  have d: "\<not> ok 404" "ok 200" by (simp_all add: ok_def)
  have e: "name pikachu = toLowerCase ''Pikachu''"
    by (simp add: pikachu_def l)
  from fetchPokemonByName_outcome
         [of offline_api "''pikachu''" showing_charizard 404 None pikachu]
       fetchPokemonByName_outcome
         [of sample_api "''nosuchname''" showing_charizard 404 None pikachu]
       fetchPokemonByName_outcome
         [of sample_api "''Pikachu''" showing_charizard 200 "Some pikachu" pikachu]
       a b c d e
  show ?thesis by simp
qed

text \<open>
  Claim C7 as stated fails where the remote source answers a lookup with a record of
  another name, as it does for a lookup by number: searching \<open>25\<close> succeeds with the
  creature named \<open>pikachu\<close>.
\<close>

theorem fetchPokemonByName_by_number:
  "pokemonList (run (fetchPokemonByName sample_api ''25'') showing_charizard) = [pikachu] \<and>
   error (run (fetchPokemonByName sample_api ''25'') showing_charizard) = None \<and>
   toLowerCase (name pikachu) \<noteq> toLowerCase ''25''"
  by (simp add: run_fetchPokemonByName fetchPokemonByName_try_def pokemon_url_def
      toLowerCase_def lower_char_def sample_api_def sample_pokemon_at_def ok_def pikachu_def)

section \<open>Outcome of a type lookup\<close>

text \<open>
  Claim C4. When the membership request succeeds and one of the member requests (those
  of the first 20 members) rejects, the lookup gives no partial result: after the member
  requests, the routine sets the error
  \<open>Failed to load Pokemon by type. Please try again.\<close>, empties the result set and
  clears the loading flag.
\<close>

theorem fetchPokemonByType_member_rejects:
  assumes membership: "type_at remote (type_url t) = Response status (Some members)"
    and status: "ok status"
    and member: "url \<in> set (take 20 members)"
    and rejects: "member_request remote url = Inl e"
  shows "fetchPokemonByType_settle remote t =
           map Fetch (take 20 members) @
           [SetError (Some ''Failed to load Pokemon by type. Please try again.''),
            SetPokemonList [], SetIsLoading False] \<and>
         error (run (fetchPokemonByType remote t) s) =
           Some ''Failed to load Pokemon by type. Please try again.'' \<and>
         pokemonList (run (fetchPokemonByType remote t) s) = [] \<and>
         isLoading (run (fetchPokemonByType remote t) s) = False"
proof -
  from membership status have urls: "pokemonUrls remote t = Inr (take 20 members)"
    by (rule pokemonUrls_ok)
  from member rejects have "Inl e \<in> set (map (member_request remote) (take 20 members))"
    by force
  then obtain e' where all: "promise_all (map (member_request remote) (take 20 members)) = Inl e'"
    using promise_all_rejects by blast
  from urls all show ?thesis
    by (simp add: run_fetchPokemonByType fetchPokemonByType_settle_def)
qed

theorem fetchPokemonByType_member_rejects_witness:
  "type_at sample_api (type_url ''flying'') =
     Response 200 (Some [''https://pokeapi.co/api/v2/pokemon/6/'',
                         ''https://pokeapi.co/api/v2/pokemon/0/'']) \<and>
   ok 200 \<and>
   ''https://pokeapi.co/api/v2/pokemon/0/'' \<in>
     set (take 20 [''https://pokeapi.co/api/v2/pokemon/6/'',
                   ''https://pokeapi.co/api/v2/pokemon/0/'']) \<and>
   member_request sample_api ''https://pokeapi.co/api/v2/pokemon/6/'' = Inr charizard \<and>
   member_request sample_api ''https://pokeapi.co/api/v2/pokemon/0/'' = Inl SyntaxError \<and>
   error (run (fetchPokemonByType sample_api ''flying'') showing_charizard) =
     Some ''Failed to load Pokemon by type. Please try again.'' \<and>
   pokemonList (run (fetchPokemonByType sample_api ''flying'') showing_charizard) = [] \<and>
   isLoading (run (fetchPokemonByType sample_api ''flying'') showing_charizard) = False"
proof -
  have a: "type_at sample_api (type_url ''flying'') =
     Response 200 (Some [''https://pokeapi.co/api/v2/pokemon/6/'',
                         ''https://pokeapi.co/api/v2/pokemon/0/''])"
    by (simp add: type_url_def toLowerCase_def lower_char_def sample_api_def sample_type_at_def)
  have b: "ok 200" by (simp add: ok_def)
  have c: "''https://pokeapi.co/api/v2/pokemon/0/'' \<in>
     set (take 20 [''https://pokeapi.co/api/v2/pokemon/6/'',
                   ''https://pokeapi.co/api/v2/pokemon/0/''])"
    by simp
  have d: "member_request sample_api ''https://pokeapi.co/api/v2/pokemon/0/'' = Inl SyntaxError"
    by (simp add: member_request_def sample_api_def sample_pokemon_at_def)
  have e: "member_request sample_api ''https://pokeapi.co/api/v2/pokemon/6/'' = Inr charizard"
    by (simp add: member_request_def sample_api_def sample_pokemon_at_def)
  from fetchPokemonByType_member_rejects [OF a b c d, of showing_charizard] a b c d e
  show ?thesis by simp
qed

text \<open>
  Claim C5. After a successful type lookup whose membership list has \<open>length members\<close>
  entries, the result set has exactly \<open>min 20 (length members)\<close> creatures, and the
  creature at each position is the record the remote source served for the member
  reference at that position of the membership list.
\<close>

theorem fetchPokemonByType_result_order:
  assumes membership: "type_at remote (type_url t) = Response status (Some members)"
    and status: "ok status"
    and success: "error (run (fetchPokemonByType remote t) s) = None"
  shows "length (pokemonList (run (fetchPokemonByType remote t) s)) = min 20 (length members) \<and>
         (\<forall>i < min 20 (length members).
            \<exists>member_status.
              pokemon_at remote (members ! i) =
                Response member_status
                  (Some (pokemonList (run (fetchPokemonByType remote t) s) ! i)))"
proof -
  from membership status have urls: "pokemonUrls remote t = Inr (take 20 members)"
    by (rule pokemonUrls_ok)
  from success urls obtain pokemonData
    where all: "promise_all (map (member_request remote) (take 20 members)) = Inr pokemonData"
    by (cases "promise_all (map (member_request remote) (take 20 members))")
      (simp_all add: run_fetchPokemonByType)
  from urls all have final: "pokemonList (run (fetchPokemonByType remote t) s) = pokemonData"
    by (simp add: run_fetchPokemonByType)
  from all have eq: "map (member_request remote) (take 20 members) = map Inr pokemonData"
    by (simp add: promise_all_Inr_iff)
  have len: "length pokemonData = min 20 (length members)"
    using map_eq_map_Inr(1) [OF eq] by (simp add: min.commute)
  have nth: "\<exists>member_status.
      pokemon_at remote (members ! i) = Response member_status (Some (pokemonData ! i))"
    if "i < min 20 (length members)" for i
  proof -
    from that have "i < length (take 20 members)" by simp
    then have "member_request remote (take 20 members ! i) = Inr (pokemonData ! i)"
      by (rule map_eq_map_Inr(2) [OF eq])
    with that have "member_request remote (members ! i) = Inr (pokemonData ! i)" by simp
    then show ?thesis by (rule member_request_Inr)
  qed
  from final len nth show ?thesis by simp
qed

lemma sample_electric_members:
  "type_at sample_api (type_url ''electric'') =
     Response 200 (Some (''https://pokeapi.co/api/v2/pokemon/6/''
        # replicate 21 ''https://pokeapi.co/api/v2/pokemon/25/''))"
  by (simp add: type_url_def toLowerCase_def lower_char_def sample_api_def sample_type_at_def)

lemma sample_electric_members_take:
  "take 20 (''https://pokeapi.co/api/v2/pokemon/6/''
        # replicate 21 ''https://pokeapi.co/api/v2/pokemon/25/'') =
   ''https://pokeapi.co/api/v2/pokemon/6/'' # replicate 19 ''https://pokeapi.co/api/v2/pokemon/25/''"
  by (simp add: take_Cons')

lemma sample_electric_final:
  "run (fetchPokemonByType sample_api ''electric'') showing_charizard =
     \<lparr>searchTerm = ''charizard'', pokemonList = charizard # replicate 19 pikachu,
      isLoading = False, error = None\<rparr>"
proof -
  have m6: "member_request sample_api ''https://pokeapi.co/api/v2/pokemon/6/'' = Inr charizard"
    by (simp add: member_request_def sample_api_def sample_pokemon_at_def)
  have m25: "member_request sample_api ''https://pokeapi.co/api/v2/pokemon/25/'' = Inr pikachu"
    by (simp add: member_request_def sample_api_def sample_pokemon_at_def)
  have ok: "ok 200" by (simp add: ok_def)
  have urls: "pokemonUrls sample_api ''electric'' =
      Inr (''https://pokeapi.co/api/v2/pokemon/6/''
        # replicate 19 ''https://pokeapi.co/api/v2/pokemon/25/'')"
    using pokemonUrls_ok [OF sample_electric_members ok]
    by (simp only: sample_electric_members_take)
  show ?thesis
    by (simp add: run_fetchPokemonByType urls m6 m25 promise_all_replicate
        showing_charizard_def)
qed

theorem fetchPokemonByType_result_order_witness:
  "type_at sample_api (type_url ''electric'') =
     Response 200 (Some (''https://pokeapi.co/api/v2/pokemon/6/''
        # replicate 21 ''https://pokeapi.co/api/v2/pokemon/25/'')) \<and>
   ok 200 \<and>
   error (run (fetchPokemonByType sample_api ''electric'') showing_charizard) = None \<and>
   length (pokemonList (run (fetchPokemonByType sample_api ''electric'') showing_charizard)) = 20 \<and>
   pokemon_at sample_api ''https://pokeapi.co/api/v2/pokemon/6/'' = Response 200 (Some charizard) \<and>
   pokemonList (run (fetchPokemonByType sample_api ''electric'') showing_charizard) ! 0 = charizard \<and>
   pokemon_at sample_api ''https://pokeapi.co/api/v2/pokemon/25/'' = Response 200 (Some pikachu) \<and>
   pokemonList (run (fetchPokemonByType sample_api ''electric'') showing_charizard) ! 1 = pikachu"
proof -
  have b: "ok 200" by (simp add: ok_def)
  have c: "error (run (fetchPokemonByType sample_api ''electric'') showing_charizard) = None"
    by (simp add: sample_electric_final)
  have p6: "pokemon_at sample_api ''https://pokeapi.co/api/v2/pokemon/6/'' =
      Response 200 (Some charizard)"
    by (simp add: sample_api_def sample_pokemon_at_def)
  have p25: "pokemon_at sample_api ''https://pokeapi.co/api/v2/pokemon/25/'' =
      Response 200 (Some pikachu)"
    by (simp add: sample_api_def sample_pokemon_at_def)
  note order = fetchPokemonByType_result_order [OF sample_electric_members b c]
  from order have len:
    "length (pokemonList (run (fetchPokemonByType sample_api ''electric'') showing_charizard)) = 20"
    by simp
  from order have at:
    "i < min 20 (length (''https://pokeapi.co/api/v2/pokemon/6/''
        # replicate 21 ''https://pokeapi.co/api/v2/pokemon/25/'')) \<longrightarrow>
     (\<exists>member_status.
        pokemon_at sample_api
          ((''https://pokeapi.co/api/v2/pokemon/6/''
            # replicate 21 ''https://pokeapi.co/api/v2/pokemon/25/'') ! i) =
        Response member_status
          (Some (pokemonList (run (fetchPokemonByType sample_api ''electric'')
             showing_charizard) ! i)))" for i
    by blast
  from at [of 0] p6 have first:
    "pokemonList (run (fetchPokemonByType sample_api ''electric'') showing_charizard) ! 0 =
     charizard"
    by simp
  from at [of 1] p25 have second:
    "pokemonList (run (fetchPokemonByType sample_api ''electric'') showing_charizard) ! 1 =
     pikachu"
    by simp
  from sample_electric_members b c len p6 first p25 second show ?thesis by simp
qed

section \<open>Results or error at completion\<close>

text \<open>
  The success path of either routine does not clear \<open>error\<close>, and nothing keeps a
  second fetch from starting while one is in flight. When a type lookup fails between
  the entry and the settlement of another one that succeeds, the second settlement
  leaves a non-empty result set together with the error of the first.
\<close>

lemma overlapping_fetch_keeps_error:
  "pokemonList (run (fetchPokemonByType_settle sample_api ''fire'')
     (run (fetchPokemonByType sample_api ''flying'')
       (run (fetchPokemonByType_begin ''fire'') showing_charizard))) = [charizard] \<and>
   error (run (fetchPokemonByType_settle sample_api ''fire'')
     (run (fetchPokemonByType sample_api ''flying'')
       (run (fetchPokemonByType_begin ''fire'') showing_charizard))) =
     Some ''Failed to load Pokemon by type. Please try again.''"
  by (simp add: run_fetchPokemonByType_settle run_fetchPokemonByType pokemonUrls_def
      member_request_def type_url_def toLowerCase_def lower_char_def sample_api_def
      sample_type_at_def sample_pokemon_at_def ok_def)

text \<open>
  Claim C3, as the code has it. Let a fetch settle in a state \<open>s'\<close>. A name lookup
  always finishes with a non-empty result set or an error, and so does a type lookup
  unless its membership request succeeded with an empty member list. When the error is
  null in \<open>s'\<close>, as it is when no other fetch has failed since this one cleared it at
  entry, the fetch does not finish with both, and a type lookup with an empty member
  list finishes with an empty result set and a null error. In particular a fetch that
  runs from entry to settlement with nothing in between finishes with exactly one of
  the two, but for the type lookup with an empty member list.
\<close>

theorem fetch_finishes_with_results_or_error:
  "(pokemonList (run (fetchPokemonByName_settle remote n) s') \<noteq> [] \<or>
    error (run (fetchPokemonByName_settle remote n) s') \<noteq> None) \<and>
   (error s' = None \<longrightarrow>
      \<not> (pokemonList (run (fetchPokemonByName_settle remote n) s') \<noteq> [] \<and>
         error (run (fetchPokemonByName_settle remote n) s') \<noteq> None)) \<and>
   ((\<forall>st. ok st \<longrightarrow> type_at remote (type_url t) \<noteq> Response st (Some [])) \<longrightarrow>
      pokemonList (run (fetchPokemonByType_settle remote t) s') \<noteq> [] \<or>
      error (run (fetchPokemonByType_settle remote t) s') \<noteq> None) \<and>
   (error s' = None \<longrightarrow>
      \<not> (pokemonList (run (fetchPokemonByType_settle remote t) s') \<noteq> [] \<and>
         error (run (fetchPokemonByType_settle remote t) s') \<noteq> None)) \<and>
   (type_at remote (type_url t) = Response status (Some []) \<and> ok status \<and> error s' = None \<longrightarrow>
      pokemonList (run (fetchPokemonByType_settle remote t) s') = [] \<and>
      error (run (fetchPokemonByType_settle remote t) s') = None) \<and>
   ((pokemonList (run (fetchPokemonByName remote n) s) \<noteq> []) \<noteq>
      (error (run (fetchPokemonByName remote n) s) \<noteq> None)) \<and>
   \<not> (pokemonList (run (fetchPokemonByType remote t) s) \<noteq> [] \<and>
      error (run (fetchPokemonByType remote t) s) \<noteq> None) \<and>
   ((\<forall>st. ok st \<longrightarrow> type_at remote (type_url t) \<noteq> Response st (Some [])) \<longrightarrow>
      (pokemonList (run (fetchPokemonByType remote t) s) \<noteq> []) \<noteq>
      (error (run (fetchPokemonByType remote t) s) \<noteq> None)) \<and>
   (type_at remote (type_url t) = Response status (Some []) \<and> ok status \<longrightarrow>
      pokemonList (run (fetchPokemonByType remote t) s) = [] \<and>
      error (run (fetchPokemonByType remote t) s) = None)"
proof (intro conjI impI)
  show "pokemonList (run (fetchPokemonByName_settle remote n) s') \<noteq> [] \<or>
    error (run (fetchPokemonByName_settle remote n) s') \<noteq> None"
    by (simp add: run_fetchPokemonByName_settle split: sum.splits)
  show "(pokemonList (run (fetchPokemonByName remote n) s) \<noteq> []) \<noteq>
      (error (run (fetchPokemonByName remote n) s) \<noteq> None)"
    by (simp add: run_fetchPokemonByName split: sum.splits)
  show "\<not> (pokemonList (run (fetchPokemonByType remote t) s) \<noteq> [] \<and>
      error (run (fetchPokemonByType remote t) s) \<noteq> None)"
    by (simp add: run_fetchPokemonByType split: sum.splits)
next
  assume "error s' = None"
  then show "\<not> (pokemonList (run (fetchPokemonByName_settle remote n) s') \<noteq> [] \<and>
         error (run (fetchPokemonByName_settle remote n) s') \<noteq> None)"
    by (simp add: run_fetchPokemonByName_settle split: sum.splits)
next
  assume "error s' = None"
  then show "\<not> (pokemonList (run (fetchPokemonByType_settle remote t) s') \<noteq> [] \<and>
         error (run (fetchPokemonByType_settle remote t) s') \<noteq> None)"
    by (simp add: run_fetchPokemonByType_settle split: sum.splits)
next
  assume "\<forall>st. ok st \<longrightarrow> type_at remote (type_url t) \<noteq> Response st (Some [])"
  then have nonempty: "pokemonUrls remote t \<noteq> Inr []"
    using pokemonUrls_empty by blast
  then show "pokemonList (run (fetchPokemonByType_settle remote t) s') \<noteq> [] \<or>
      error (run (fetchPokemonByType_settle remote t) s') \<noteq> None"
    by (auto simp: run_fetchPokemonByType_settle promise_all_Inr_iff split: sum.splits)
  from nonempty show "(pokemonList (run (fetchPokemonByType remote t) s) \<noteq> []) \<noteq>
      (error (run (fetchPokemonByType remote t) s) \<noteq> None)"
    by (auto simp: run_fetchPokemonByType promise_all_Inr_iff split: sum.splits)
next
  assume "type_at remote (type_url t) = Response status (Some []) \<and> ok status \<and> error s' = None"
  then have "pokemonUrls remote t = Inr []" and "error s' = None"
    by (simp_all add: pokemonUrls_empty_membership)
  then show "pokemonList (run (fetchPokemonByType_settle remote t) s') = []"
    and "error (run (fetchPokemonByType_settle remote t) s') = None"
    by (simp_all add: run_fetchPokemonByType_settle)
next
  assume "type_at remote (type_url t) = Response status (Some []) \<and> ok status"
  then have "pokemonUrls remote t = Inr []"
    by (simp add: pokemonUrls_empty_membership)
  then show "pokemonList (run (fetchPokemonByType remote t) s) = []"
    and "error (run (fetchPokemonByType remote t) s) = None"
    by (simp_all add: run_fetchPokemonByType)
qed

theorem fetch_finishes_with_results_or_error_witness:
  "error showing_charizard = None \<and>
   type_at sample_api (type_url ''fire'') =
     Response 200 (Some [''https://pokeapi.co/api/v2/pokemon/6/'']) \<and>
   pokemonList (run (fetchPokemonByType sample_api ''fire'') showing_charizard) = [charizard] \<and>
   error (run (fetchPokemonByType sample_api ''fire'') showing_charizard) = None \<and>
   pokemonList (run (fetchPokemonByType_settle sample_api ''fire'') showing_charizard) =
     [charizard] \<and>
   error (run (fetchPokemonByType_settle sample_api ''fire'') showing_charizard) = None \<and>
   pokemonList (run (fetchPokemonByName sample_api ''nosuchname'') showing_charizard) = [] \<and>
   error (run (fetchPokemonByName sample_api ''nosuchname'') showing_charizard) =
     Some ''Pokemon not found. Please try another name.'' \<and>
   type_at sample_api (type_url ''shadow'') = Response 200 (Some []) \<and> ok 200 \<and>
   pokemonList (run (fetchPokemonByType sample_api ''shadow'') showing_charizard) = [] \<and>
   error (run (fetchPokemonByType sample_api ''shadow'') showing_charizard) = None \<and>
   pokemonList (run (fetchPokemonByType_settle sample_api ''shadow'') showing_charizard) = [] \<and>
   error (run (fetchPokemonByType_settle sample_api ''shadow'') showing_charizard) = None"
proof -
  have e0: "error showing_charizard = None" by (simp add: showing_charizard_def)
  have ok: "ok 200" by (simp add: ok_def)
  have fire: "type_at sample_api (type_url ''fire'') =
      Response 200 (Some [''https://pokeapi.co/api/v2/pokemon/6/''])"
    by (simp add: type_url_def toLowerCase_def lower_char_def sample_api_def sample_type_at_def)
  then have fire_nonempty:
    "\<forall>st. ok st \<longrightarrow> type_at sample_api (type_url ''fire'') \<noteq> Response st (Some [])"
    by simp
  have shadow: "type_at sample_api (type_url ''shadow'') = Response 200 (Some [])"
    by (simp add: type_url_def toLowerCase_def lower_char_def sample_api_def sample_type_at_def)
  from fire ok have urls: "pokemonUrls sample_api ''fire'' =
      Inr [''https://pokeapi.co/api/v2/pokemon/6/'']"
    by (simp add: pokemonUrls_def)
  have m: "member_request sample_api ''https://pokeapi.co/api/v2/pokemon/6/'' = Inr charizard"
    by (simp add: member_request_def sample_api_def sample_pokemon_at_def)
  have fire_run:
    "pokemonList (run (fetchPokemonByType sample_api ''fire'') showing_charizard) = [charizard]"
    by (simp add: run_fetchPokemonByType urls m)
  have fire_settle:
    "pokemonList (run (fetchPokemonByType_settle sample_api ''fire'') showing_charizard) =
     [charizard]"
    by (simp add: run_fetchPokemonByType_settle urls m)
  have u: "pokemon_url ''nosuchname'' = ''https://pokeapi.co/api/v2/pokemon/nosuchname''"
    by (simp add: pokemon_url_def toLowerCase_def lower_char_def)
  have name_run:
    "error (run (fetchPokemonByName sample_api ''nosuchname'') showing_charizard) =
     Some ''Pokemon not found. Please try another name.''"
    by (simp add: run_fetchPokemonByName fetchPokemonByName_try_def u
        sample_api_def sample_pokemon_at_def ok_def)
  note at_fire = fetch_finishes_with_results_or_error
    [of sample_api "''nosuchname''" showing_charizard "''fire''" 200 showing_charizard]
  note at_shadow = fetch_finishes_with_results_or_error
    [of sample_api "''nosuchname''" showing_charizard "''shadow''" 200 showing_charizard]
  from at_fire e0 fire_nonempty fire_run fire_settle name_run
  have part_fire:
    "error (run (fetchPokemonByType sample_api ''fire'') showing_charizard) = None \<and>
     error (run (fetchPokemonByType_settle sample_api ''fire'') showing_charizard) = None \<and>
     pokemonList (run (fetchPokemonByName sample_api ''nosuchname'') showing_charizard) = []"
    by simp
  from at_shadow e0 shadow ok
  have part_shadow:
    "pokemonList (run (fetchPokemonByType sample_api ''shadow'') showing_charizard) = [] \<and>
     error (run (fetchPokemonByType sample_api ''shadow'') showing_charizard) = None \<and>
     pokemonList (run (fetchPokemonByType_settle sample_api ''shadow'') showing_charizard) = [] \<and>
     error (run (fetchPokemonByType_settle sample_api ''shadow'') showing_charizard) = None"
    by simp
  from e0 ok fire shadow fire_run fire_settle name_run part_fire part_shadow
  show ?thesis by simp
qed

text \<open>
  Claim C3 as stated fails for a type without members: the lookup succeeds, the result
  set becomes empty and the error stays null.
\<close>

theorem fetchPokemonByType_empty_membership:
  "pokemonList (run (fetchPokemonByType sample_api ''shadow'') showing_charizard) = [] \<and>
   error (run (fetchPokemonByType sample_api ''shadow'') showing_charizard) = None"
  by (simp add: run_fetchPokemonByType pokemonUrls_def type_url_def toLowerCase_def
      lower_char_def sample_api_def sample_type_at_def ok_def)

end
